theory Spec2Isabelle
  imports Main
begin

section \<open>The list-view settings of Supplier Quotation\<close>

text \<open>
  The source is one assignment, in \<^verbatim>\<open>supplier_quotation_list.js\<close>:
  \<^verbatim>\<open>
  frappe.listview_settings['Supplier Quotation'] = {
    add_fields: ["supplier", "base_grand_total", "status", "company", "currency"],
    get_indicator: function(doc) {
      if(doc.status==="Ordered") {
        return [__("Ordered"), "purple", "status,=,Ordered"];
      } else if(doc.status==="Rejected") {
        return [__("Lost"), "darkgrey", "status,=,Lost"];
      }
    }
  };
  \<close>
  The embedding below follows it line by line.
\<close>

subsection \<open>JavaScript values\<close>

text \<open>
  The values a list row or one of its fields can hold. An object is the table of its own
  data properties, looked up by \<open>map_of\<close> (so the first binding of a name is the
  property). Rows are plain data decoded from JSON: they carry no accessor properties and
  no \<open>status\<close> is inherited from a prototype. A string is a \<open>char list\<close>; equality of
  strings is equality of these lists. The payload of a number is never inspected here.
\<close>

datatype jsval =
    JUndefined
  | JNull
  | JBool bool
  | JNum int
  | JStr string
  | JArr "jsval list"
  | JObj "(string \<times> jsval) list"

text \<open>The only exception the function body can raise by itself.\<close>

datatype error = TypeError

text \<open>
  The expression \<^verbatim>\<open>doc.status\<close>. Reading a property of \<^verbatim>\<open>undefined\<close> or
  \<^verbatim>\<open>null\<close> throws a TypeError; an object yields the property, or \<^verbatim>\<open>undefined\<close>
  when it has none of that name; booleans, numbers, strings and arrays have no property
  called \<open>status\<close> and yield \<^verbatim>\<open>undefined\<close>.
\<close>

fun doc_status :: "jsval \<Rightarrow> error + jsval" where
  "doc_status JUndefined = Inl TypeError"
| "doc_status JNull = Inl TypeError"
| "doc_status (JObj fs) =
     (case map_of fs ''status'' of None \<Rightarrow> Inr JUndefined | Some v \<Rightarrow> Inr v)"
| "doc_status (JBool b) = Inr JUndefined"
| "doc_status (JNum n) = Inr JUndefined"
| "doc_status (JStr s) = Inr JUndefined"
| "doc_status (JArr vs) = Inr JUndefined"

text \<open>
  The comparison \<^verbatim>\<open>v === "lit"\<close> against a string literal: strict equality makes no
  conversion, so it holds exactly when \<open>v\<close> is a string with the same characters.
\<close>

fun strict_eq_str :: "jsval \<Rightarrow> string \<Rightarrow> bool" where
  "strict_eq_str (JStr s) lit = (s = lit)"
| "strict_eq_str _ lit = False"

subsection \<open>The two entries of the settings object\<close>

definition add_fields :: "string list" where
  "add_fields = [''supplier'', ''base_grand_total'', ''status'', ''company'', ''currency'']"

text \<open>
  \<open>get_indicator\<close> takes the translation lookup \<^verbatim>\<open>__\<close> of the host as the parameter
  \<open>tr\<close> (it is not part of this file) and the row \<open>doc\<close>. It returns what the call
  completes with (\<open>Inl\<close> an exception, \<open>Inr\<close> the returned value, \<^verbatim>\<open>undefined\<close> when
  the body falls off its end) together with the row as it is after the call. The source
  reads \<^verbatim>\<open>doc.status\<close> once per comparison, and so does the model.
\<close>

definition get_indicator :: "(string \<Rightarrow> string) \<Rightarrow> jsval \<Rightarrow> (error + jsval) \<times> jsval" where
  "get_indicator tr doc =
     (case doc_status doc of
        Inl e \<Rightarrow> (Inl e, doc)
      | Inr s1 \<Rightarrow>
          if strict_eq_str s1 ''Ordered'' then
            (Inr (JArr [JStr (tr ''Ordered''), JStr ''purple'', JStr ''status,=,Ordered'']), doc)
          else
            (case doc_status doc of
               Inl e \<Rightarrow> (Inl e, doc)
             | Inr s2 \<Rightarrow>
                 if strict_eq_str s2 ''Rejected'' then
                   (Inr (JArr [JStr (tr ''Lost''), JStr ''darkgrey'', JStr ''status,=,Lost'']), doc)
                 else (Inr JUndefined, doc)))"

subsection \<open>The registration\<close>

text \<open>
  \<^verbatim>\<open>frappe.listview_settings\<close> is a table from document type names to settings objects;
  the file stores its object under the key \<open>Supplier Quotation\<close>, whatever was there.
\<close>

record listview_setting =
  ls_add_fields :: "string list"
  ls_get_indicator :: "jsval \<Rightarrow> (error + jsval) \<times> jsval"

definition supplier_quotation_settings :: "(string \<Rightarrow> string) \<Rightarrow> listview_setting" where
  "supplier_quotation_settings tr =
     \<lparr>ls_add_fields = add_fields, ls_get_indicator = get_indicator tr\<rparr>"

definition register_settings ::
  "(string \<Rightarrow> string) \<Rightarrow> (string \<rightharpoonup> listview_setting) \<Rightarrow> (string \<rightharpoonup> listview_setting)" where
  "register_settings tr reg = reg(''Supplier Quotation'' \<mapsto> supplier_quotation_settings tr)"

subsection \<open>Notions used to state the properties\<close>

text \<open>What a read of \<^verbatim>\<open>status\<close> on a record (an object) yields.\<close>

definition status_of :: "(string \<times> jsval) list \<Rightarrow> jsval" where
  "status_of fs = (case map_of fs ''status'' of None \<Rightarrow> JUndefined | Some v \<Rightarrow> v)"

fun is_JStr :: "jsval \<Rightarrow> bool" where
  "is_JStr (JStr s) = True"
| "is_JStr _ = False"

text \<open>ASCII letters folded to lower case; two strings that differ only in letter case.\<close>

definition ascii_lower :: "char \<Rightarrow> char" where
  "ascii_lower c =
     (let n = (of_char c :: nat) in if 65 \<le> n \<and> n \<le> 90 then char_of (n + 32) else c)"

definition differs_only_in_case :: "string \<Rightarrow> string \<Rightarrow> bool" where
  "differs_only_in_case s t \<longleftrightarrow> s \<noteq> t \<and> map ascii_lower s = map ascii_lower t"

section \<open>Properties\<close>

subsection \<open>Shared facts\<close>

lemma doc_status_obj: "doc_status (JObj fs) = Inr (status_of fs)"
  by (simp add: status_of_def split: option.split)

lemma strict_eq_str_iff: "strict_eq_str v lit \<longleftrightarrow> v = JStr lit"
  by (cases v) auto

lemma get_indicator_obj:
  "get_indicator tr (JObj fs) =
     (if status_of fs = JStr ''Ordered'' then
        (Inr (JArr [JStr (tr ''Ordered''), JStr ''purple'', JStr ''status,=,Ordered'']), JObj fs)
      else if status_of fs = JStr ''Rejected'' then
        (Inr (JArr [JStr (tr ''Lost''), JStr ''darkgrey'', JStr ''status,=,Lost'']), JObj fs)
      else (Inr JUndefined, JObj fs))"
  unfolding get_indicator_def doc_status_obj by (simp add: strict_eq_str_iff)

lemma get_indicator_frame: "snd (get_indicator tr doc) = doc"
  by (simp add: get_indicator_def split: sum.split)

lemma get_indicator_unmatched:
  "status_of fs \<noteq> JStr ''Ordered'' \<Longrightarrow> status_of fs \<noteq> JStr ''Rejected'' \<Longrightarrow>
   get_indicator tr (JObj fs) = (Inr JUndefined, JObj fs)"
  by (simp add: get_indicator_obj)

lemma is_JStr_iff: "is_JStr v \<longleftrightarrow> (\<exists>s. v = JStr s)"
  by (cases v) auto

lemma lower_Ordered: "map ascii_lower ''Ordered'' = ''ordered''"
  by code_simp

lemma lower_Rejected: "map ascii_lower ''Rejected'' = ''rejected''"
  by code_simp

lemma differs_only_in_case_unmatched:
  assumes "differs_only_in_case s ''Ordered'' \<or> differs_only_in_case s ''Rejected''"
  shows "s \<noteq> ''Ordered'' \<and> s \<noteq> ''Rejected''"
  using assms lower_Ordered lower_Rejected
  by (auto simp add: differs_only_in_case_def)

text \<open>
  An argument that is no record at all, \<^verbatim>\<open>null\<close> or \<^verbatim>\<open>undefined\<close>, makes the first
  read of \<^verbatim>\<open>doc.status\<close> throw.
\<close>

lemma get_indicator_no_record:
  "get_indicator tr JNull = (Inl TypeError, JNull)"
  "get_indicator tr JUndefined = (Inl TypeError, JUndefined)"
  by (simp_all add: get_indicator_def)

subsection \<open>The matched statuses\<close>

text \<open>
  C1. For every record whose \<open>status\<close> is the string \<open>Ordered\<close>, \<open>get_indicator\<close> returns
  the array of the translated label \<open>Ordered\<close>, the colour \<open>purple\<close> and the filter
  \<open>status,=,Ordered\<close>.
\<close>

theorem get_indicator_ordered:
  assumes "status_of fs = JStr ''Ordered''"
  shows "fst (get_indicator tr (JObj fs)) =
           Inr (JArr [JStr (tr ''Ordered''), JStr ''purple'', JStr ''status,=,Ordered''])"
  using assms by (simp add: get_indicator_obj)

theorem get_indicator_ordered_witness:
  "status_of [(''supplier'', JStr ''ACME''), (''status'', JStr ''Ordered'')] = JStr ''Ordered''
   \<and> fst (get_indicator (\<lambda>s. s) (JObj [(''supplier'', JStr ''ACME''), (''status'', JStr ''Ordered'')])) =
       Inr (JArr [JStr ''Ordered'', JStr ''purple'', JStr ''status,=,Ordered''])"
proof -
  have h: "status_of [(''supplier'', JStr ''ACME''), (''status'', JStr ''Ordered'')] = JStr ''Ordered''"
    by (simp add: status_of_def)
  show ?thesis
    using h get_indicator_ordered [OF h, of "\<lambda>s. s"] by simp
qed

text \<open>
  C2. For every record whose \<open>status\<close> is the string \<open>Rejected\<close>, \<open>get_indicator\<close>
  returns the array of the translated label \<open>Lost\<close>, the colour \<open>darkgrey\<close> and the filter
  \<open>status,=,Lost\<close>: the filter names \<open>Lost\<close>, not \<open>Rejected\<close>.
\<close>

theorem get_indicator_rejected:
  assumes "status_of fs = JStr ''Rejected''"
  shows "fst (get_indicator tr (JObj fs)) =
           Inr (JArr [JStr (tr ''Lost''), JStr ''darkgrey'', JStr ''status,=,Lost''])
         \<and> fst (get_indicator tr (JObj fs)) \<noteq>
           Inr (JArr [JStr (tr ''Lost''), JStr ''darkgrey'', JStr ''status,=,Rejected''])"
  using assms by (simp add: get_indicator_obj)

theorem get_indicator_rejected_witness:
  "status_of [(''status'', JStr ''Rejected''), (''company'', JStr ''Initech'')] = JStr ''Rejected''
   \<and> fst (get_indicator (\<lambda>s. s) (JObj [(''status'', JStr ''Rejected''), (''company'', JStr ''Initech'')])) =
       Inr (JArr [JStr ''Lost'', JStr ''darkgrey'', JStr ''status,=,Lost''])"
proof -
  have h: "status_of [(''status'', JStr ''Rejected''), (''company'', JStr ''Initech'')] = JStr ''Rejected''"
    by (simp add: status_of_def)
  show ?thesis
    using h get_indicator_rejected [OF h, of "\<lambda>s. s"] by simp
qed

subsection \<open>Every other status\<close>

text \<open>
  C3. For every record whose \<open>status\<close> is anything but the strings \<open>Ordered\<close> and
  \<open>Rejected\<close> (\<open>Draft\<close>, the empty string, \<^verbatim>\<open>null\<close>, or no \<open>status\<close> property at all),
  \<open>get_indicator\<close> returns no indicator: the call completes with \<^verbatim>\<open>undefined\<close>.
\<close>

theorem get_indicator_other_status:
  assumes "status_of fs \<noteq> JStr ''Ordered''" and "status_of fs \<noteq> JStr ''Rejected''"
  shows "fst (get_indicator tr (JObj fs)) = Inr JUndefined"
  using assms by (simp add: get_indicator_unmatched)

theorem get_indicator_other_status_witness:
  "status_of [(''status'', JStr ''Draft'')] \<noteq> JStr ''Ordered''
   \<and> status_of [(''status'', JStr ''Draft'')] \<noteq> JStr ''Rejected''
   \<and> fst (get_indicator (\<lambda>s. s) (JObj [(''status'', JStr ''Draft'')])) = Inr JUndefined
   \<and> fst (get_indicator (\<lambda>s. s) (JObj [(''status'', JStr [])])) = Inr JUndefined
   \<and> fst (get_indicator (\<lambda>s. s) (JObj [(''status'', JNull)])) = Inr JUndefined
   \<and> fst (get_indicator (\<lambda>s. s) (JObj [(''supplier'', JStr ''ACME'')])) = Inr JUndefined"
  using get_indicator_other_status [of "[(''status'', JStr ''Draft'')]" "\<lambda>s. s"]
    get_indicator_other_status [of "[(''status'', JStr [])]" "\<lambda>s. s"]
    get_indicator_other_status [of "[(''status'', JNull)]" "\<lambda>s. s"]
    get_indicator_other_status [of "[(''supplier'', JStr ''ACME'')]" "\<lambda>s. s"]
  by (simp add: status_of_def)

text \<open>
  C10. The match is strict and case-sensitive: for every record whose \<open>status\<close> differs from
  \<open>Ordered\<close> or from \<open>Rejected\<close> only in letter case, and for every record whose \<open>status\<close>
  is not a string, \<open>get_indicator\<close> returns no indicator.
\<close>

theorem get_indicator_strict_match:
  "(status_of fs = JStr s \<and>
      (differs_only_in_case s ''Ordered'' \<or> differs_only_in_case s ''Rejected'')
      \<longrightarrow> fst (get_indicator tr (JObj fs)) = Inr JUndefined)
   \<and> (\<not> is_JStr (status_of fs) \<longrightarrow> fst (get_indicator tr (JObj fs)) = Inr JUndefined)"
proof (intro conjI impI)
  assume a: "status_of fs = JStr s \<and>
    (differs_only_in_case s ''Ordered'' \<or> differs_only_in_case s ''Rejected'')"
  then have "s \<noteq> ''Ordered'' \<and> s \<noteq> ''Rejected''"
    using differs_only_in_case_unmatched by blast
  with a show "fst (get_indicator tr (JObj fs)) = Inr JUndefined"
    by (simp add: get_indicator_unmatched)
next
  assume "\<not> is_JStr (status_of fs)"
  then have "status_of fs \<noteq> JStr ''Ordered''" and "status_of fs \<noteq> JStr ''Rejected''"
    by (auto simp add: is_JStr_iff)
  then show "fst (get_indicator tr (JObj fs)) = Inr JUndefined"
    by (simp add: get_indicator_unmatched)
qed

theorem get_indicator_strict_match_witness:
  "differs_only_in_case ''ordered'' ''Ordered''
   \<and> fst (get_indicator (\<lambda>s. s) (JObj [(''status'', JStr ''ordered'')])) = Inr JUndefined
   \<and> differs_only_in_case ''REJECTED'' ''Rejected''
   \<and> fst (get_indicator (\<lambda>s. s) (JObj [(''status'', JStr ''REJECTED'')])) = Inr JUndefined
   \<and> \<not> is_JStr (status_of [(''status'', JArr [JStr ''Ordered''])])
   \<and> fst (get_indicator (\<lambda>s. s) (JObj [(''status'', JArr [JStr ''Ordered''])])) = Inr JUndefined"
proof -
  have c1: "differs_only_in_case ''ordered'' ''Ordered''" by code_simp
  have c2: "differs_only_in_case ''REJECTED'' ''Rejected''" by code_simp
  have s1: "status_of [(''status'', JStr ''ordered'')] = JStr ''ordered''"
    by (simp add: status_of_def)
  have s2: "status_of [(''status'', JStr ''REJECTED'')] = JStr ''REJECTED''"
    by (simp add: status_of_def)
  have s3: "\<not> is_JStr (status_of [(''status'', JArr [JStr ''Ordered''])])"
    by (simp add: status_of_def)
  show ?thesis
    using c1 c2 s1 s2 s3
      get_indicator_strict_match [of "[(''status'', JStr ''ordered'')]" "''ordered''" "\<lambda>s. s"]
      get_indicator_strict_match [of "[(''status'', JStr ''REJECTED'')]" "''REJECTED''" "\<lambda>s. s"]
      get_indicator_strict_match [of "[(''status'', JArr [JStr ''Ordered''])]" "[]" "\<lambda>s. s"]
    by blast
qed

subsection \<open>No exception, and a result on every record\<close>

text \<open>
  C4. \<open>get_indicator\<close> raises on no record: every call on an object completes normally, and
  a record with no \<open>status\<close> property, or with a \<open>status\<close> that is not a string, gets no
  indicator (\<^verbatim>\<open>undefined\<close>) instead of an error.
\<close>

theorem get_indicator_never_raises:
  "(\<exists>v. fst (get_indicator tr (JObj fs)) = Inr v)
   \<and> (map_of fs ''status'' = None \<longrightarrow> fst (get_indicator tr (JObj fs)) = Inr JUndefined)
   \<and> (\<not> is_JStr (status_of fs) \<longrightarrow> fst (get_indicator tr (JObj fs)) = Inr JUndefined)"
proof (intro conjI impI)
  show "\<exists>v. fst (get_indicator tr (JObj fs)) = Inr v"
    by (simp add: get_indicator_obj)
next
  assume "map_of fs ''status'' = None"
  then have "status_of fs = JUndefined"
    by (simp add: status_of_def)
  then show "fst (get_indicator tr (JObj fs)) = Inr JUndefined"
    by (simp add: get_indicator_unmatched)
next
  assume "\<not> is_JStr (status_of fs)"
  then have "status_of fs \<noteq> JStr ''Ordered''" and "status_of fs \<noteq> JStr ''Rejected''"
    by (auto simp add: is_JStr_iff)
  then show "fst (get_indicator tr (JObj fs)) = Inr JUndefined"
    by (simp add: get_indicator_unmatched)
qed

theorem get_indicator_never_raises_witness:
  "map_of [(''supplier'', JStr ''ACME'')] ''status'' = None
   \<and> fst (get_indicator (\<lambda>s. s) (JObj [(''supplier'', JStr ''ACME'')])) = Inr JUndefined
   \<and> \<not> is_JStr (status_of [(''status'', JObj [(''status'', JStr ''Ordered'')])])
   \<and> fst (get_indicator (\<lambda>s. s) (JObj [(''status'', JObj [(''status'', JStr ''Ordered'')])])) =
       Inr JUndefined"
proof -
  have m: "map_of [(''supplier'', JStr ''ACME'')] ''status'' = None"
    by simp
  have n: "\<not> is_JStr (status_of [(''status'', JObj [(''status'', JStr ''Ordered'')])])"
    by (simp add: status_of_def)
  show ?thesis
    using m n
      get_indicator_never_raises [of "\<lambda>s. s" "[(''supplier'', JStr ''ACME'')]"]
      get_indicator_never_raises [of "\<lambda>s. s" "[(''status'', JObj [(''status'', JStr ''Ordered'')])]"]
    by blast
qed

text \<open>
  C8. \<open>get_indicator\<close> returns on every input. The model is a closed, non-recursive
  function of the row and the translation alone (nothing is read or written besides), and
  each of its paths ends in a completion: on a record one of the two indicators or
  \<^verbatim>\<open>undefined\<close>; on any argument one of these or the TypeError.
\<close>

theorem get_indicator_returns:
  "fst (get_indicator tr (JObj fs)) \<in>
     {Inr (JArr [JStr (tr ''Ordered''), JStr ''purple'', JStr ''status,=,Ordered'']),
      Inr (JArr [JStr (tr ''Lost''), JStr ''darkgrey'', JStr ''status,=,Lost'']),
      Inr JUndefined}
   \<and> get_indicator tr doc \<in>
     {(Inr (JArr [JStr (tr ''Ordered''), JStr ''purple'', JStr ''status,=,Ordered'']), doc),
      (Inr (JArr [JStr (tr ''Lost''), JStr ''darkgrey'', JStr ''status,=,Lost'']), doc),
      (Inr JUndefined, doc),
      (Inl TypeError, doc)}"
proof
  show "fst (get_indicator tr (JObj fs)) \<in>
     {Inr (JArr [JStr (tr ''Ordered''), JStr ''purple'', JStr ''status,=,Ordered'']),
      Inr (JArr [JStr (tr ''Lost''), JStr ''darkgrey'', JStr ''status,=,Lost'']),
      Inr JUndefined}"
    by (simp add: get_indicator_obj)
next
  show "get_indicator tr doc \<in>
     {(Inr (JArr [JStr (tr ''Ordered''), JStr ''purple'', JStr ''status,=,Ordered'']), doc),
      (Inr (JArr [JStr (tr ''Lost''), JStr ''darkgrey'', JStr ''status,=,Lost'']), doc),
      (Inr JUndefined, doc),
      (Inl TypeError, doc)}"
  proof (cases doc)
    case (JObj gs)
    then show ?thesis by (simp add: get_indicator_obj)
  qed (simp_all add: get_indicator_def)
qed

subsection \<open>The prefetch list\<close>

text \<open>
  C5. \<open>add_fields\<close> is a constant: whatever the translation and whatever the settings
  table held before, the registered entry lists exactly \<open>supplier\<close>, \<open>base_grand_total\<close>,
  \<open>status\<close>, \<open>company\<close>, \<open>currency\<close>, in this order.
\<close>

theorem add_fields_constant:
  "add_fields = [''supplier'', ''base_grand_total'', ''status'', ''company'', ''currency'']
   \<and> length add_fields = 5
   \<and> map_option ls_add_fields (register_settings tr reg ''Supplier Quotation'') =
       Some [''supplier'', ''base_grand_total'', ''status'', ''company'', ''currency'']"
  by (simp add: add_fields_def register_settings_def supplier_quotation_settings_def)

subsection \<open>Purity\<close>

text \<open>
  C6. \<open>get_indicator\<close> is idempotent and deterministic: a second call, made on the record as
  the first call left it, yields the same output as the first.
\<close>

theorem get_indicator_idempotent:
  "get_indicator tr (snd (get_indicator tr doc)) = get_indicator tr doc"
  by (simp add: get_indicator_frame)

text \<open>
  C7. \<open>get_indicator\<close> has no effect besides its result: the record after the call is the
  record before it, so every property of it reads as before.
\<close>

theorem get_indicator_no_mutation:
  "snd (get_indicator tr doc) = doc \<and> snd (get_indicator tr (JObj fs)) = JObj fs"
  by (simp add: get_indicator_frame)

text \<open>
  C9. The output of \<open>get_indicator\<close> depends on the \<open>status\<close> of the record only: two
  records that agree on \<open>status\<close> get the same result, whatever their other properties.
\<close>

theorem get_indicator_status_only:
  assumes "status_of fs1 = status_of fs2"
  shows "fst (get_indicator tr (JObj fs1)) = fst (get_indicator tr (JObj fs2))"
  using assms by (simp add: get_indicator_obj)

theorem get_indicator_status_only_witness:
  "status_of [(''supplier'', JStr ''ACME''), (''base_grand_total'', JNum 100),
              (''status'', JStr ''Ordered''), (''currency'', JStr ''EUR'')]
     = status_of [(''status'', JStr ''Ordered''), (''company'', JStr ''Initech'')]
   \<and> fst (get_indicator (\<lambda>s. s)
        (JObj [(''supplier'', JStr ''ACME''), (''base_grand_total'', JNum 100),
               (''status'', JStr ''Ordered''), (''currency'', JStr ''EUR'')]))
     = fst (get_indicator (\<lambda>s. s)
        (JObj [(''status'', JStr ''Ordered''), (''company'', JStr ''Initech'')]))"
proof -
  have h: "status_of [(''supplier'', JStr ''ACME''), (''base_grand_total'', JNum 100),
              (''status'', JStr ''Ordered''), (''currency'', JStr ''EUR'')]
     = status_of [(''status'', JStr ''Ordered''), (''company'', JStr ''Initech'')]"
    by (simp add: status_of_def)
  show ?thesis
    using h get_indicator_status_only [OF h, of "\<lambda>s. s"] by blast
qed

end
